theory Spec2Isabelle
  imports Main
begin

section \<open>Strings and POSIX paths\<close>

text \<open>
  The program manipulates paths with \<^verbatim>\<open>os.path\<close> (\<^verbatim>\<open>join\<close>, \<^verbatim>\<open>relpath\<close>,
  \<^verbatim>\<open>basename\<close>, \<^verbatim>\<open>exists\<close>) on a POSIX system. The functions below follow
  \<^verbatim>\<open>posixpath\<close>: \<^verbatim>\<open>join\<close> with two arguments, \<^verbatim>\<open>normpath\<close>, \<^verbatim>\<open>abspath\<close>
  (with the current directory passed in) and \<^verbatim>\<open>relpath\<close>, which raises
  \<^verbatim>\<open>ValueError\<close> on the empty path.
\<close>

type_synonym path = string

datatype error =
    KeyError string
  | CompilationError
  | CalledProcessError int
  | ValueError
  | TypeError
  | FileNotFoundError path
  | SameFileError
  | JSONDecodeError
  | UnicodeDecodeError
  | NoSuchObject nat

definition startswith :: "string \<Rightarrow> string \<Rightarrow> bool" where
  "startswith s p = (take (length p) s = p)"

definition endswith :: "string \<Rightarrow> string \<Rightarrow> bool" where
  "endswith s p = (length p \<le> length s \<and> drop (length s - length p) s = p)"

text \<open>\<^verbatim>\<open>s.split(c)\<close>: the pieces between the separators; never the empty list.\<close>

fun split_on :: "char \<Rightarrow> string \<Rightarrow> string list" where
  "split_on c [] = [[]]"
| "split_on c (x # xs) =
     (if x = c then [] # split_on c xs
      else (case split_on c xs of [] \<Rightarrow> [[x]] | y # ys \<Rightarrow> (x # y) # ys))"

text \<open>\<^verbatim>\<open>sep.join(xs)\<close>.\<close>

fun str_join :: "string \<Rightarrow> string list \<Rightarrow> string" where
  "str_join sep [] = []"
| "str_join sep [x] = x"
| "str_join sep (x # y # ys) = x @ sep @ str_join sep (y # ys)"

text \<open>
  A Python \<^verbatim>\<open>str\<close> is represented by its UTF-8 encoding, so a character of the text
  is one to four \<open>char\<close>s. The characters \<^verbatim>\<open>str.isspace\<close> accepts are those of one
  byte below, U+0085 and U+00A0 (two bytes), and U+1680, U+2000 to U+200A, U+2028, U+2029,
  U+202F, U+205F and U+3000 (three bytes).
\<close>

definition isspace1 :: "char \<Rightarrow> bool" where
  "isspace1 a = (a \<in> set [CHR 0x09, CHR 0x0A, CHR 0x0B, CHR 0x0C, CHR 0x0D,
                            CHR 0x1C, CHR 0x1D, CHR 0x1E, CHR 0x1F, CHR 0x20])"

definition isspace2 :: "char \<Rightarrow> char \<Rightarrow> bool" where
  "isspace2 a b = (a = CHR 0xC2 \<and> b \<in> set [CHR 0x85, CHR 0xA0])"

definition isspace3 :: "char \<Rightarrow> char \<Rightarrow> char \<Rightarrow> bool" where
  "isspace3 a b c =
     ((a = CHR 0xE1 \<and> b = CHR 0x9A \<and> c = CHR 0x80) \<or>
      (a = CHR 0xE2 \<and> b = CHR 0x80 \<and>
         c \<in> set [CHR 0x80, CHR 0x81, CHR 0x82, CHR 0x83, CHR 0x84, CHR 0x85, CHR 0x86,
                   CHR 0x87, CHR 0x88, CHR 0x89, CHR 0x8A, CHR 0xA8, CHR 0xA9, CHR 0xAF]) \<or>
      (a = CHR 0xE2 \<and> b = CHR 0x81 \<and> c = CHR 0x9F) \<or>
      (a = CHR 0xE3 \<and> b = CHR 0x80 \<and> c = CHR 0x80))"

text \<open>\<^verbatim>\<open>s.lstrip()\<close>: the whitespace characters at the front are removed.\<close>

fun lstrip :: "string \<Rightarrow> string" where
  "lstrip (a # b # c # s) =
     (if isspace1 a then lstrip (b # c # s)
      else if isspace2 a b then lstrip (c # s)
      else if isspace3 a b c then lstrip s
      else a # b # c # s)"
| "lstrip [a, b] = (if isspace1 a then lstrip [b] else if isspace2 a b then [] else [a, b])"
| "lstrip [a] = (if isspace1 a then [] else [a])"
| "lstrip [] = []"

text \<open>
  \<^verbatim>\<open>s.rstrip()\<close>, on the reversed text: the last byte comes first, so the bytes of a
  character are met in reverse.
\<close>

fun rstrip_rev :: "string \<Rightarrow> string" where
  "rstrip_rev (c # b # a # s) =
     (if isspace1 c then rstrip_rev (b # a # s)
      else if isspace2 b c then rstrip_rev (a # s)
      else if isspace3 a b c then rstrip_rev s
      else c # b # a # s)"
| "rstrip_rev [c, b] = (if isspace1 c then rstrip_rev [b] else if isspace2 b c then [] else [c, b])"
| "rstrip_rev [c] = (if isspace1 c then [] else [c])"
| "rstrip_rev [] = []"

definition strip :: "string \<Rightarrow> string" where
  "strip s = rev (rstrip_rev (rev (lstrip s)))"

text \<open>
  Reading in text mode translates \<^verbatim>\<open>\r\n\<close> and a lone \<^verbatim>\<open>\r\<close> into \<^verbatim>\<open>\n\<close>
  (universal newlines); \<^verbatim>\<open>file.readlines()\<close> then gives the lines of the text, each
  with its terminator. The decoding of the file's bytes comes before, see \<open>decode\<close> below.
\<close>

fun universal_newlines :: "string \<Rightarrow> string" where
  "universal_newlines [] = []"
| "universal_newlines [c] = (if c = CHR 0x0D then [CHR 0x0A] else [c])"
| "universal_newlines (c # d # s) =
     (if c = CHR 0x0D then
        (if d = CHR 0x0A then CHR 0x0A # universal_newlines s
         else CHR 0x0A # universal_newlines (d # s))
      else c # universal_newlines (d # s))"

fun readlines_acc :: "string \<Rightarrow> string \<Rightarrow> string list" where
  "readlines_acc cur [] = (if cur = [] then [] else [cur])"
| "readlines_acc cur (x # xs) =
     (if x = CHR 0x0A then (cur @ [x]) # readlines_acc [] xs
      else readlines_acc (cur @ [x]) xs)"

definition readlines :: "string \<Rightarrow> string list" where
  "readlines txt = readlines_acc [] (universal_newlines txt)"

definition isabs :: "path \<Rightarrow> bool" where
  "isabs s = startswith s ''/''"

definition join :: "path \<Rightarrow> path \<Rightarrow> path" where
  "join a b =
     (if startswith b ''/'' then b
      else if a = [] \<or> endswith a ''/'' then a @ b
      else a @ ''/'' @ b)"

text \<open>\<^verbatim>\<open>join(*parts)\<close> for a non-empty list of parts.\<close>

definition join_list :: "path list \<Rightarrow> path" where
  "join_list parts = (case parts of [] \<Rightarrow> [] | a # p \<Rightarrow> foldl join a p)"

definition basename :: "path \<Rightarrow> path" where
  "basename p = last (split_on CHR ''/'' p)"

definition initial_slashes :: "path \<Rightarrow> nat" where
  "initial_slashes p =
     (if startswith p ''/'' then
        (if startswith p ''//'' \<and> \<not> startswith p ''///'' then 2 else 1)
      else 0)"

text \<open>The loop of \<^verbatim>\<open>normpath\<close> over the components; \<open>new\<close> is \<^verbatim>\<open>new_comps\<close>.\<close>

fun norm_comps :: "nat \<Rightarrow> string list \<Rightarrow> string list \<Rightarrow> string list" where
  "norm_comps sl new [] = new"
| "norm_comps sl new (cmp # comps) =
     (if cmp = [] \<or> cmp = ''.'' then norm_comps sl new comps
      else if cmp \<noteq> ''..'' \<or> (sl = 0 \<and> new = []) \<or> (new \<noteq> [] \<and> last new = ''..'')
        then norm_comps sl (new @ [cmp]) comps
      else if new \<noteq> [] then norm_comps sl (butlast new) comps
      else norm_comps sl new comps)"

definition normpath :: "path \<Rightarrow> path" where
  "normpath p =
     (if p = [] then ''.''
      else
        let sl = initial_slashes p;
            comps = norm_comps sl [] (split_on CHR ''/'' p);
            q = replicate sl CHR ''/'' @ str_join ''/'' comps
        in if q = [] then ''.'' else q)"

text \<open>\<^verbatim>\<open>abspath\<close>, with \<^verbatim>\<open>os.getcwd()\<close> as the first argument.\<close>

definition abspath :: "path \<Rightarrow> path \<Rightarrow> path" where
  "abspath cwd p = normpath (if isabs p then p else join cwd p)"

text \<open>\<^verbatim>\<open>commonprefix\<close> of two lists of components: their longest common prefix.\<close>

fun commonprefix :: "string list \<Rightarrow> string list \<Rightarrow> string list" where
  "commonprefix (x # xs) (y # ys) = (if x = y then x # commonprefix xs ys else [])"
| "commonprefix _ _ = []"

definition path_list :: "path \<Rightarrow> string list" where
  "path_list p = filter (\<lambda>x. x \<noteq> []) (split_on CHR ''/'' p)"

definition relpath :: "path \<Rightarrow> path \<Rightarrow> path \<Rightarrow> error + path" where
  "relpath cwd p start =
     (if p = [] then Inl ValueError
      else
        let start_list = path_list (abspath cwd start);
            p_list = path_list (abspath cwd p);
            i = length (commonprefix start_list p_list);
            rel_list = replicate (length start_list - i) ''..'' @ drop i p_list
        in if rel_list = [] then Inr ''.'' else Inr (join_list rel_list))"

text \<open>
  A Python value handed to \<^verbatim>\<open>relpath\<close>: a string, or a built-in function object
  (the name \<^verbatim>\<open>dir\<close> where no variable of that name is in scope). \<^verbatim>\<open>relpath\<close>
  of a value that is no path raises \<^verbatim>\<open>TypeError\<close>; with one argument the start
  is the current directory.
\<close>

datatype pyval = PyStr string | PyBuiltin string

definition relpath1 :: "path \<Rightarrow> pyval \<Rightarrow> error + path" where
  "relpath1 cwd v = (case v of PyStr p \<Rightarrow> relpath cwd p ''.'' | PyBuiltin _ \<Rightarrow> Inl TypeError)"

section \<open>The world: files, environment, log, child processes, objects\<close>

text \<open>
  Everything the program touches outside its own variables is one record: the regular
  files (a path exists when it has a content), \<^verbatim>\<open>os.environ\<close>, the current
  directory, the records written through \<^verbatim>\<open>logger\<close>, the child processes
  started so far (each with the directory, command, environment and standard-error
  policy it was given), the number of temporary directories made, and the store of
  dictionary objects (a reference is an index into it), which is what
  \<^verbatim>\<open>copy.deepcopy\<close> and assignments to \<^verbatim>\<open>item[...]\<close> work on.
\<close>

type_synonym fs = "path \<rightharpoonup> string"
type_synonym env = "string \<rightharpoonup> string"
type_synonym dict = "(string \<times> string) list"
type_synonym ref = nat

datatype level = INFO | WARNING | ERROR

datatype stderr_policy = Inherit | DEVNULL

datatype cmdline = Shell string | Argv "string list"

record invocation =
  inv_cmd :: cmdline
  inv_cwd :: path
  inv_env :: env
  inv_stderr :: stderr_policy

record world =
  files :: fs
  environ :: env
  cwd :: path
  logged :: "(level \<times> string) list"
  procs :: "invocation list"
  tmp_made :: nat
  heap :: "dict list"

text \<open>
  The external collaborators are parameters: \<open>run\<close> is what a child process does
  to the files and the exit code it ends with (it may depend on the whole world at
  the time; it cannot change the parent's environment or directory),
  \<open>mkdtemp_name\<close> names the n-th temporary directory, \<open>json_dumps\<close> and
  \<open>json_loads\<close> are the \<^verbatim>\<open>json\<close> module on lists of string dictionaries, and
  \<open>decode\<close> is the encoding \<^verbatim>\<open>open\<close> reads text files with (the locale's): it
  gives the text of a file's bytes, or nothing where Python raises
  \<^verbatim>\<open>UnicodeDecodeError\<close>.
\<close>

record ext =
  run :: "invocation \<Rightarrow> world \<Rightarrow> int \<times> fs"
  mkdtemp_name :: "nat \<Rightarrow> path"
  json_dumps :: "dict list \<Rightarrow> string"
  json_loads :: "string \<Rightarrow> dict list option"
  decode :: "string \<Rightarrow> string option"

text \<open>A call either returns a value or raises; both leave a world behind.\<close>

datatype 'a outcome = Returned 'a world | Raised error world

fun world_of :: "'a outcome \<Rightarrow> world" where
  "world_of (Returned _ w) = w"
| "world_of (Raised _ w) = w"

definition bind :: "'a outcome \<Rightarrow> ('a \<Rightarrow> world \<Rightarrow> 'b outcome) \<Rightarrow> 'b outcome" where
  "bind m k = (case m of Returned x w \<Rightarrow> k x w | Raised e w \<Rightarrow> Raised e w)"

text \<open>\<^verbatim>\<open>try: body  except subprocess.CalledProcessError: handler\<close>.\<close>

definition except_CalledProcessError ::
  "unit outcome \<Rightarrow> (world \<Rightarrow> unit outcome) \<Rightarrow> unit outcome" where
  "except_CalledProcessError body handler =
     (case body of
        Raised e w \<Rightarrow> (case e of CalledProcessError rc \<Rightarrow> handler w | _ \<Rightarrow> Raised e w)
      | Returned x w \<Rightarrow> Returned x w)"

definition exists :: "world \<Rightarrow> path \<Rightarrow> bool" where
  "exists w p = (files w p \<noteq> None)"

definition logger :: "level \<Rightarrow> string \<Rightarrow> world \<Rightarrow> world" where
  "logger lvl msg w = w\<lparr>logged := logged w @ [(lvl, msg)]\<rparr>"

text \<open>
  \<^verbatim>\<open>"... {} ...".format(relpath(v))\<close>: the argument is evaluated first, and its
  exception, if any, is raised in place of whatever would use the text.
\<close>

definition with_relpath :: "pyval \<Rightarrow> world \<Rightarrow> (string \<Rightarrow> 'a outcome) \<Rightarrow> 'a outcome" where
  "with_relpath v w k = (case relpath1 (cwd w) v of Inl e \<Rightarrow> Raised e w | Inr r \<Rightarrow> k r)"

text \<open>
  \<^verbatim>\<open>subprocess.check_output\<close>: the child runs, the files are what it leaves, and
  a non-zero exit code raises \<^verbatim>\<open>CalledProcessError\<close>. The output is discarded by
  every caller. Modelled from the spec: \<^verbatim>\<open>utils.cd\<close>, which is not among the
  sources, makes the given directory the current one for the command; it is the
  \<open>d\<close> argument here.
\<close>

definition check_output ::
  "ext \<Rightarrow> cmdline \<Rightarrow> path \<Rightarrow> env \<Rightarrow> stderr_policy \<Rightarrow> world \<Rightarrow> unit outcome" where
  "check_output x c d e se w =
     (let inv = \<lparr>inv_cmd = c, inv_cwd = d, inv_env = e, inv_stderr = se\<rparr>;
          r = run x inv w;
          w' = w\<lparr>files := snd r, procs := procs w @ [inv]\<rparr>
      in if fst r = 0 then Returned () w' else Raised (CalledProcessError (fst r)) w')"

text \<open>\<^verbatim>\<open>shutil.copyfile(src, dst)\<close>.\<close>

definition copyfile :: "path \<Rightarrow> path \<Rightarrow> world \<Rightarrow> unit outcome" where
  "copyfile src dst w =
     (if src = dst \<and> exists w src then Raised SameFileError w
      else case files w src of
             None \<Rightarrow> Raised (FileNotFoundError src) w
           | Some c \<Rightarrow> Returned () (w\<lparr>files := (files w)(dst \<mapsto> c)\<rparr>))"

section \<open>The environment-scoped build executor\<close>

text \<open>The loop of lines 87-88 over the lines of the messages file.\<close>

fun log_failed :: "string list \<Rightarrow> world \<Rightarrow> unit outcome" where
  "log_failed [] w = Returned () w"
| "log_failed (line # lines) w =
     with_relpath (PyStr (strip line)) w
       (\<lambda>r. log_failed lines (logger WARNING (''failed to build '' @ r) w))"

definition build_in_env ::
  "ext \<Rightarrow> path \<Rightarrow> string \<Rightarrow> stderr_policy \<Rightarrow> env \<Rightarrow> world \<Rightarrow> unit outcome" where
  "build_in_env x d cmd se e w =
     (let dirpath = mkdtemp_name x (tmp_made w);
          w0 = w\<lparr>tmp_made := Suc (tmp_made w)\<rparr>;
          messages = join dirpath ''messages'';
          environment = e(''ANGELIX_COMPILER_MESSAGES'' \<mapsto> messages)
      in bind
           (except_CalledProcessError
              (check_output x (Shell cmd) d environment se w0)
              (\<lambda>w1. with_relpath (PyStr d) w1
                 (\<lambda>r. Returned ()
                    (logger WARNING (''compilation of '' @ r @ '' returned non-zero code'') w1))))
           (\<lambda>_ w2. case files w2 messages of
                      Some bytes \<Rightarrow>
                        (case decode x bytes of
                           Some txt \<Rightarrow> log_failed (readlines txt) w2
                         | None \<Rightarrow> Raised UnicodeDecodeError w2)
                    | None \<Rightarrow> Returned () w2))"

definition build_with_cc ::
  "ext \<Rightarrow> path \<Rightarrow> string \<Rightarrow> stderr_policy \<Rightarrow> string \<Rightarrow> world \<Rightarrow> unit outcome" where
  "build_with_cc x d cmd se cc w =
     (let e = (environ w)(''CC'' \<mapsto> cc)
      in build_in_env x d cmd se e w)"

section \<open>Project\<close>

text \<open>
  A test's specification has an executable path and may have a build sub-step with
  its directory and command, as the data model of the specification says.
\<close>

record build_spec =
  directory :: path
  command :: string

record test_spec =
  build :: "build_spec option"
  executable :: path

record project =
  config :: "string \<rightharpoonup> bool"
  stderr :: stderr_policy
  dir :: path
  buggy :: path
  build_cmd :: string
  configure_cmd :: "string option"
  tests_spec :: "string \<rightharpoonup> test_spec"
  buggy_backup :: path

definition Project_init ::
  "(string \<rightharpoonup> bool) \<Rightarrow> path \<Rightarrow> path \<Rightarrow> string \<Rightarrow> string option \<Rightarrow> (string \<rightharpoonup> test_spec)
     \<Rightarrow> world \<Rightarrow> project outcome" where
  "Project_init cfg d b bc cc ts w =
     (case cfg ''verbose'' of
        None \<Rightarrow> Raised (KeyError ''verbose'') w
      | Some v \<Rightarrow>
          let self = \<lparr>config = cfg, stderr = (if v then Inherit else DEVNULL), dir = d,
                       buggy = b, build_cmd = bc, configure_cmd = cc, tests_spec = ts,
                       buggy_backup = join d b @ ''.backup''\<rparr>
          in bind (copyfile (join (dir self) (buggy self)) (buggy_backup self) w)
               (\<lambda>_ w'. Returned self w'))"

definition restore_buggy :: "project \<Rightarrow> world \<Rightarrow> unit outcome" where
  "restore_buggy self w = copyfile (buggy_backup self) (join (dir self) (buggy self)) w"

text \<open>
  Line 68 formats \<^verbatim>\<open>relpath(dir)\<close>; \<^verbatim>\<open>configure\<close> has no variable
  \<^verbatim>\<open>dir\<close> and neither has the module, so the name is the built-in function.
\<close>

definition configure :: "ext \<Rightarrow> project \<Rightarrow> world \<Rightarrow> unit outcome" where
  "configure x self w =
     (let src = basename (dir self);
          w0 = logger INFO (''configuring '' @ src @ '' source'') w
      in case configure_cmd self of
           None \<Rightarrow> Returned () w0
         | Some c \<Rightarrow>
             except_CalledProcessError
               (check_output x (Shell c) (dir self) (environ w0) (stderr self) w0)
               (\<lambda>w1. with_relpath (PyBuiltin ''dir'') w1
                  (\<lambda>r. Returned ()
                     (logger WARNING (''configuration of '' @ r @ '' returned non-zero code'') w1))))"

section \<open>The variants\<close>

text \<open>
  Raising the compilation failure of lines 110-111 (and their copies): the error
  record is logged first.
\<close>

definition fail_dependency :: "string \<Rightarrow> path \<Rightarrow> world \<Rightarrow> unit outcome" where
  "fail_dependency test_case dependency w =
     with_relpath (PyStr dependency) w
       (\<lambda>r. Raised CompilationError
          (logger ERROR (''failed to build test '' @ test_case @ '' dependency '' @ r) w))"

subsection \<open>Validation\<close>

definition Validation_build :: "ext \<Rightarrow> project \<Rightarrow> world \<Rightarrow> unit outcome" where
  "Validation_build x self w =
     (let w0 = logger INFO ''building validation source'' w
      in build_in_env x (dir self) (build_cmd self) (stderr self) (environ w0) w0)"

definition Validation_build_test :: "ext \<Rightarrow> project \<Rightarrow> string \<Rightarrow> world \<Rightarrow> unit outcome" where
  "Validation_build_test x self test_case w =
     (case tests_spec self test_case of
        None \<Rightarrow> Raised (KeyError test_case) w
      | Some ts \<Rightarrow>
          bind (case build ts of
                  Some b \<Rightarrow> build_in_env x (join (dir self) (directory b)) (command b)
                              (stderr self) (environ w) w
                | None \<Rightarrow> Returned () w)
            (\<lambda>_ w1.
               let dependency = join (dir self) (executable ts)
               in if \<not> exists w1 dependency then fail_dependency test_case dependency w1
                  else Returned () w1))"

subsection \<open>Frontend\<close>

definition Frontend_build :: "ext \<Rightarrow> project \<Rightarrow> world \<Rightarrow> unit outcome" where
  "Frontend_build x self w =
     (let w0 = logger INFO ''building frontend source'' w
      in build_with_cc x (dir self) (build_cmd self) (stderr self) ''angelix-compiler --test'' w0)"

definition Frontend_build_test :: "ext \<Rightarrow> project \<Rightarrow> string \<Rightarrow> world \<Rightarrow> unit outcome" where
  "Frontend_build_test x self test_case w =
     (case tests_spec self test_case of
        None \<Rightarrow> Raised (KeyError test_case) w
      | Some ts \<Rightarrow>
          bind (case build ts of
                  Some b \<Rightarrow> build_with_cc x (join (dir self) (directory b)) (command b)
                              (stderr self) ''angelix-compiler --test'' w
                | None \<Rightarrow> Returned () w)
            (\<lambda>_ w1.
               let dependency = join (dir self) (executable ts)
               in if \<not> exists w1 dependency then fail_dependency test_case dependency w1
                  else Returned () w1))"

subsection \<open>Backend\<close>

definition Backend_build :: "ext \<Rightarrow> project \<Rightarrow> world \<Rightarrow> unit outcome" where
  "Backend_build x self w =
     (let w0 = logger INFO ''building backend source'' w
      in build_with_cc x (dir self) (build_cmd self) (stderr self) ''angelix-compiler --klee'' w0)"

text \<open>Lines 174-177: the patcher runs in the current directory with the ambient environment.\<close>

definition patch_bitcode :: "ext \<Rightarrow> project \<Rightarrow> path \<Rightarrow> world \<Rightarrow> unit outcome" where
  "patch_bitcode x self dependency w =
     except_CalledProcessError
       (check_output x (Argv [''angelix-patch-bitcode'', dependency]) (cwd w) (environ w)
          (stderr self) w)
       (\<lambda>w1. with_relpath (PyStr dependency) w1
          (\<lambda>r. Returned ()
             (logger WARNING (''patching of '' @ r @ '' returned non-zero code'') w1)))"

definition Backend_build_test :: "ext \<Rightarrow> project \<Rightarrow> string \<Rightarrow> world \<Rightarrow> unit outcome" where
  "Backend_build_test x self test_case w =
     (case tests_spec self test_case of
        None \<Rightarrow> Raised (KeyError test_case) w
      | Some ts \<Rightarrow>
          bind (case build ts of
                  Some b \<Rightarrow> build_with_cc x (join (dir self) (directory b)) (command b)
                              (stderr self) ''angelix-compiler --klee'' w
                | None \<Rightarrow> Returned () w)
            (\<lambda>_ w1.
               let executable = join (dir self) (executable ts);
                   dependency = executable @ ''.bc''
               in if \<not> exists w1 dependency then fail_dependency test_case dependency w1
                  else
                    let patched_dependency = executable @ ''.patched.bc''
                    in bind (patch_bitcode x self dependency w1)
                         (\<lambda>_ w2.
                            if \<not> exists w2 patched_dependency
                            then fail_dependency test_case patched_dependency w2
                            else Returned () w2)))"

subsection \<open>Golden\<close>

definition Golden_build :: "ext \<Rightarrow> project \<Rightarrow> world \<Rightarrow> unit outcome" where
  "Golden_build x self w =
     (let w0 = logger INFO ''building golden source'' w
      in build_with_cc x (dir self) (build_cmd self) (stderr self) ''angelix-compiler --test'' w0)"

definition Golden_build_test :: "ext \<Rightarrow> project \<Rightarrow> string \<Rightarrow> world \<Rightarrow> unit outcome" where
  "Golden_build_test x self test_case w =
     (case tests_spec self test_case of
        None \<Rightarrow> Raised (KeyError test_case) w
      | Some ts \<Rightarrow>
          bind (case build ts of
                  Some b \<Rightarrow> build_with_cc x (join (dir self) (directory b)) (command b)
                              (stderr self) ''angelix-compiler --test'' w
                | None \<Rightarrow> Returned () w)
            (\<lambda>_ w1.
               let dependency = join (dir self) (executable ts)
               in if \<not> exists w1 dependency then fail_dependency test_case dependency w1
                  else Returned () w1))"

subsection \<open>The four classes\<close>

datatype variant = Validation | Frontend | Backend | Golden

text \<open>Method dispatch on the class of the object.\<close>

fun build_test :: "variant \<Rightarrow> ext \<Rightarrow> project \<Rightarrow> string \<Rightarrow> world \<Rightarrow> unit outcome" where
  "build_test Validation = Validation_build_test"
| "build_test Frontend = Frontend_build_test"
| "build_test Backend = Backend_build_test"
| "build_test Golden = Golden_build_test"

text \<open>
  The artifact a caller of \<^verbatim>\<open>build_test\<close> needs afterwards: the executable, or for
  the backend its \<^verbatim>\<open>.patched.bc\<close> sibling.
\<close>

fun terminal_artifact :: "variant \<Rightarrow> project \<Rightarrow> test_spec \<Rightarrow> path" where
  "terminal_artifact Backend self ts = join (dir self) (executable ts) @ ''.patched.bc''"
| "terminal_artifact _ self ts = join (dir self) (executable ts)"

text \<open>The sub-build of a test case, lines 104-107 and their copies, when it is declared.\<close>

definition sub_build :: "variant \<Rightarrow> ext \<Rightarrow> project \<Rightarrow> test_spec \<Rightarrow> world \<Rightarrow> unit outcome" where
  "sub_build v x self ts w =
     (case build ts of
        None \<Rightarrow> Returned () w
      | Some b \<Rightarrow>
          (case v of
             Validation \<Rightarrow> build_in_env x (join (dir self) (directory b)) (command b)
                             (stderr self) (environ w) w
           | Frontend \<Rightarrow> build_with_cc x (join (dir self) (directory b)) (command b)
                           (stderr self) ''angelix-compiler --test'' w
           | Backend \<Rightarrow> build_with_cc x (join (dir self) (directory b)) (command b)
                          (stderr self) ''angelix-compiler --klee'' w
           | Golden \<Rightarrow> build_with_cc x (join (dir self) (directory b)) (command b)
                         (stderr self) ''angelix-compiler --test'' w))"

section \<open>Callers: the repair search and repeated restoration\<close>

text \<open>
  Between builds the buggy file is changed from outside: the repair search overwrites it
  with some content, or removes it. Nothing else of the project is touched by such a change.
\<close>

datatype mutation = Overwrite string | Remove

definition mutate :: "project \<Rightarrow> world \<Rightarrow> mutation \<Rightarrow> world" where
  "mutate self w m =
     w\<lparr>files := (files w)(join (dir self) (buggy self) :=
                     (case m of Overwrite c \<Rightarrow> Some c | Remove \<Rightarrow> None))\<rparr>"

text \<open>\<^verbatim>\<open>restore_buggy()\<close> called n times in a row.\<close>

fun restore_times :: "nat \<Rightarrow> project \<Rightarrow> world \<Rightarrow> unit outcome" where
  "restore_times 0 self w = Returned () w"
| "restore_times (Suc n) self w = bind (restore_buggy self w) (\<lambda>_. restore_times n self)"

section \<open>The compilation database\<close>

text \<open>
  A record of the database is a dictionary object in the store; the database is the list
  of the references to its records. The list object itself is only iterated, copied and
  serialised, so it is a value here. A reference outside the store cannot arise in
  Python; the model reports it as \<open>NoSuchObject\<close>.
\<close>

definition dict_get :: "dict \<Rightarrow> string \<Rightarrow> error + string" where
  "dict_get d k = (case map_of d k of None \<Rightarrow> Inl (KeyError k) | Some v \<Rightarrow> Inr v)"

fun dict_set :: "string \<Rightarrow> string \<Rightarrow> dict \<Rightarrow> dict" where
  "dict_set k v [] = [(k, v)]"
| "dict_set k v (kv # d) = (if fst kv = k then (k, v) # d else kv # dict_set k v d)"

text \<open>\<^verbatim>\<open>item[k]\<close> and \<^verbatim>\<open>item[k] = v\<close>.\<close>

definition getitem :: "ref \<Rightarrow> string \<Rightarrow> world \<Rightarrow> string outcome" where
  "getitem item k w =
     (if item < length (heap w) then
        (case dict_get (heap w ! item) k of Inl e \<Rightarrow> Raised e w | Inr v \<Rightarrow> Returned v w)
      else Raised (NoSuchObject item) w)"

definition setitem :: "ref \<Rightarrow> string \<Rightarrow> string \<Rightarrow> world \<Rightarrow> unit outcome" where
  "setitem item k v w =
     (if item < length (heap w) then
        Returned () (w\<lparr>heap := (heap w)[item := dict_set k v (heap w ! item)]\<rparr>)
      else Raised (NoSuchObject item) w)"

text \<open>\<^verbatim>\<open>for item in xs: body\<close>.\<close>

fun for_each :: "('a \<Rightarrow> world \<Rightarrow> unit outcome) \<Rightarrow> 'a list \<Rightarrow> world \<Rightarrow> unit outcome" where
  "for_each body [] w = Returned () w"
| "for_each body (x # xs) w =
     (case body x w of
        Returned _ w' \<Rightarrow> for_each body xs w'
      | Raised e w' \<Rightarrow> Raised e w')"

text \<open>
  \<^verbatim>\<open>copy.deepcopy\<close> of a list of dictionaries of strings: a new dictionary object
  for each element not copied before (the memo maps an object to its copy), with the
  same keys and values.
\<close>

fun deepcopy_items :: "(ref \<times> ref) list \<Rightarrow> ref list \<Rightarrow> world \<Rightarrow> ref list outcome" where
  "deepcopy_items memo [] w = Returned [] w"
| "deepcopy_items memo (r # rs) w =
     (case map_of memo r of
        Some c \<Rightarrow> bind (deepcopy_items memo rs w) (\<lambda>cs w'. Returned (c # cs) w')
      | None \<Rightarrow>
          if r < length (heap w) then
            let c = length (heap w);
                w1 = w\<lparr>heap := heap w @ [heap w ! r]\<rparr>
            in bind (deepcopy_items ((r, c) # memo) rs w1) (\<lambda>cs w'. Returned (c # cs) w')
          else Raised (NoSuchObject r) w)"

definition deepcopy :: "ref list \<Rightarrow> world \<Rightarrow> ref list outcome" where
  "deepcopy db w = deepcopy_items [] db w"

text \<open>Lines 51-53, the body of the loop of \<^verbatim>\<open>import_compilation_db\<close>.\<close>

definition import_item :: "project \<Rightarrow> ref \<Rightarrow> world \<Rightarrow> unit outcome" where
  "import_item self item w =
     bind (getitem item ''directory'' w) (\<lambda>d w1.
     bind (setitem item ''directory'' (join (dir self) d) w1) (\<lambda>_ w2.
     bind (getitem item ''file'' w2) (\<lambda>f w3.
     bind (setitem item ''file'' (join (dir self) f) w3) (\<lambda>_ w4.
     bind (getitem item ''command'' w4) (\<lambda>c w5.
       case environ w5 ''LLVM3_INCLUDE_PATH'' of
         None \<Rightarrow> Raised (KeyError ''LLVM3_INCLUDE_PATH'') w5
       | Some inc \<Rightarrow> setitem item ''command'' (c @ '' -I'' @ inc) w5)))))"

definition import_compilation_db :: "ext \<Rightarrow> project \<Rightarrow> ref list \<Rightarrow> world \<Rightarrow> unit outcome" where
  "import_compilation_db x self db w =
     bind (deepcopy db w) (\<lambda>compilation_db w1.
     bind (for_each (import_item self) compilation_db w1) (\<lambda>_ w2.
       let compilation_db_file = join (dir self) ''compile_commands.json''
       in Returned ()
            (w2\<lparr>files := (files w2)(compilation_db_file \<mapsto>
                              json_dumps x (map (\<lambda>r. heap w2 ! r) compilation_db))\<rparr>)))"

text \<open>Lines 125-126, the body of the loop of \<^verbatim>\<open>export_compilation_db\<close>.\<close>

definition export_item :: "project \<Rightarrow> ref \<Rightarrow> world \<Rightarrow> unit outcome" where
  "export_item self item w =
     bind (getitem item ''directory'' w) (\<lambda>d w1.
       case relpath (cwd w1) d (dir self) of
         Inl e \<Rightarrow> Raised e w1
       | Inr rd \<Rightarrow>
           bind (setitem item ''directory'' rd w1) (\<lambda>_ w2.
           bind (getitem item ''file'' w2) (\<lambda>f w3.
             case relpath (cwd w3) f (dir self) of
               Inl e \<Rightarrow> Raised e w3
             | Inr rf \<Rightarrow> setitem item ''file'' rf w3)))"



section \<open>Notions for the statements\<close>

text \<open>
  Two worlds agree below an address when the objects below it, the files, the environment,
  the current directory and the size of the store are the same.
\<close>

definition same_below :: "nat \<Rightarrow> world \<Rightarrow> world \<Rightarrow> bool" where
  "same_below n w w' \<longleftrightarrow> take n (heap w') = take n (heap w) \<and> files w' = files w \<and>
     environ w' = environ w \<and> length (heap w') = length (heap w) \<and> cwd w' = cwd w"



definition rel_list :: "string list \<Rightarrow> string list \<Rightarrow> string list" where
  "rel_list S P = replicate (length S - length (commonprefix S P)) ''..'' @ drop (length (commonprefix S P)) P"


section \<open>Diffs: \<^verbatim>\<open>difflib.unified_diff\<close> and \<^verbatim>\<open>diff_buggy\<close>\<close>













































subsection \<open>Notions for reasoning about the matcher\<close>

text \<open>
  The indices at which an element occurs; the elements removed as popular; for equal
  sequences, the pairs of indices the table of \<^verbatim>\<open>find_longest_match\<close> pairs up and
  the length of the run of such pairs that ends before a pair; the content of a table;
  and two sequences that differ in the one position \<open>c\<close>, the second without
  repetition and without the element replaced.
\<close>

definition indices_of :: "'a list \<Rightarrow> 'a \<Rightarrow> nat list" where
  "indices_of b x = filter (\<lambda>j. b ! j = x) [0 ..< length b]"

definition popular :: "'a list \<Rightarrow> 'a \<Rightarrow> bool" where
  "popular b x \<longleftrightarrow> length b \<ge> 200 \<and> length (indices_of b x) > length b div 100 + 1"

definition matches :: "'a list \<Rightarrow> nat \<Rightarrow> nat \<Rightarrow> bool" where
  "matches a i j \<longleftrightarrow> i < length a \<and> j < length a \<and> a ! i = a ! j \<and> \<not> popular a (a ! i)"

fun run_before :: "'a list \<Rightarrow> nat \<Rightarrow> nat \<Rightarrow> nat" where
  "run_before a 0 j = 0"
| "run_before a (Suc i) 0 = 0"
| "run_before a (Suc i) (Suc j) = (if matches a i j then run_before a i j + 1 else 0)"



section \<open>A sample project\<close>

text \<open>
  Concrete inputs for the examples: a project in \<^verbatim>\<open>/proj\<close> with one test case
  \<^verbatim>\<open>t1\<close> whose executable is \<^verbatim>\<open>bin/t1\<close>, external tools that exit with a
  given code and leave the files alone, a build command that writes one empty line
  to the messages file and fails, a stand-in for the \<^verbatim>\<open>json\<close> module, and an
  encoding under which every file read is its own text.
\<close>

definition demo_ext :: "(invocation \<Rightarrow> world \<Rightarrow> int \<times> fs) \<Rightarrow> ext" where
  "demo_ext r =
     \<lparr>run = r,
      mkdtemp_name = (\<lambda>n. ''/tmp/tmp'' @ replicate n CHR ''x''),
      json_dumps = (\<lambda>db. concat (map (\<lambda>d. concat (map (\<lambda>(k, v). k @ ''='' @ v @ '';'') d) @ ''|'') db)),
      json_loads = (\<lambda>s. if s = ''DB''
                         then Some [[(''directory'', ''/proj''), (''file'', ''/proj/src/bug.c''),
                                     (''command'', ''cc -c src/bug.c'')]]
                         else None),
      decode = Some\<rparr>"

definition exit_with :: "int \<Rightarrow> invocation \<Rightarrow> world \<Rightarrow> int \<times> fs" where
  "exit_with rc child w = (rc, files w)"

definition blank_message :: "invocation \<Rightarrow> world \<Rightarrow> int \<times> fs" where
  "blank_message child w =
     (1, case inv_env child ''ANGELIX_COMPILER_MESSAGES'' of
           Some m \<Rightarrow> (files w)(m \<mapsto> [CHR 0x0A])
         | None \<Rightarrow> files w)"

definition demo_world :: world where
  "demo_world =
     \<lparr>files = [''/proj/src/bug.c'' \<mapsto> ''int main() { return 1; }'',
               ''/proj/bin/t1'' \<mapsto> ''ELF'',
               ''/proj/bin/t1.bc'' \<mapsto> ''BC'',
               ''/proj/bin/t1.patched.bc'' \<mapsto> ''BC''],
      environ = [''CC'' \<mapsto> ''gcc'', ''LLVM3_INCLUDE_PATH'' \<mapsto> ''/llvm/include''],
      cwd = ''/home/user'', logged = [], procs = [], tmp_made = 0, heap = []\<rparr>"

definition demo_project :: project where
  "demo_project =
     \<lparr>config = [''verbose'' \<mapsto> False], stderr = DEVNULL, dir = ''/proj'',
      buggy = ''src/bug.c'', build_cmd = ''make'', configure_cmd = Some ''./configure'',
      tests_spec = [''t1'' \<mapsto> \<lparr>build = None, executable = ''bin/t1''\<rparr>],
      buggy_backup = ''/proj/src/bug.c.backup''\<rparr>"


definition demo_record :: dict where
  "demo_record = [(''directory'', ''.''), (''file'', ''src/bug.c''), (''command'', ''cc -c src/bug.c'')]"

definition demo_heap_world :: world where
  "demo_heap_world = demo_world\<lparr>heap := [demo_record]\<rparr>"

text \<open>
  The same project with a test case \<^verbatim>\<open>t2\<close> that declares a sub-build in
  \<^verbatim>\<open>tests\<close>; its executable \<^verbatim>\<open>tests/t2\<close> is not among the files.
\<close>

definition demo_test_sub :: test_spec where
  "demo_test_sub =
     \<lparr>build = Some \<lparr>directory = ''tests'', command = ''make t2''\<rparr>, executable = ''tests/t2''\<rparr>"

definition demo_project_sub :: project where
  "demo_project_sub = demo_project\<lparr>tests_spec := [''t2'' \<mapsto> demo_test_sub]\<rparr>"



section \<open>Properties\<close>

subsection \<open>Paths and log records\<close>

lemma relpath_nonempty: "p \<noteq> [] \<Longrightarrow> \<exists>r. relpath c p s = Inr r"
  by (simp add: relpath_def Let_def)

lemma with_relpath_str: "p \<noteq> [] \<Longrightarrow> \<exists>r. relpath1 (cwd w) (PyStr p) = Inr r \<and> (\<forall>k. with_relpath (PyStr p) w k = k r)"
  using relpath_nonempty[of p "cwd w" "''.''"] by (auto simp: with_relpath_def relpath1_def)

lemma join_nonempty: "b \<noteq> [] \<Longrightarrow> join a b \<noteq> []"
  by (simp add: join_def)

lemma fail_dependency_raises:
  "p \<noteq> [] \<Longrightarrow> \<exists>w'. fail_dependency t p w = Raised CompilationError w' \<and> files w' = files w"
  using with_relpath_str[of p w] by (auto simp: fail_dependency_def logger_def)

lemma check_output_cases:
  "(\<exists>w'. check_output x c d e se w = Returned () w' \<and> files w' = snd (run x \<lparr>inv_cmd = c, inv_cwd = d, inv_env = e, inv_stderr = se\<rparr> w) \<and> cwd w' = cwd w \<and> logged w' = logged w)
  \<or> (\<exists>w' rc. check_output x c d e se w = Raised (CalledProcessError rc) w' \<and> rc \<noteq> 0 \<and> files w' = snd (run x \<lparr>inv_cmd = c, inv_cwd = d, inv_env = e, inv_stderr = se\<rparr> w)\<and> cwd w' = cwd w \<and> logged w' = logged w)"
  by (simp add: check_output_def Let_def)

subsection \<open>Test dependencies\<close>

lemma build_test_sub_build:
  "tests_spec self t = Some ts \<Longrightarrow>
   build_test v x self t w =
     bind (sub_build v x self ts w)
       (\<lambda>_ w1. case v of
           Backend \<Rightarrow>
             (let executable = join (dir self) (executable ts); dependency = executable @ ''.bc''
               in if \<not> exists w1 dependency then fail_dependency t dependency w1
                  else
                    let patched_dependency = executable @ ''.patched.bc''
                    in bind (patch_bitcode x self dependency w1)
                         (\<lambda>_ w2.
                            if \<not> exists w2 patched_dependency
                            then fail_dependency t patched_dependency w2
                            else Returned () w2))
         | _ \<Rightarrow> (let dependency = join (dir self) (executable ts)
               in if \<not> exists w1 dependency then fail_dependency t dependency w1
                  else Returned () w1))"
  by (cases v) (simp_all add: sub_build_def Validation_build_test_def Frontend_build_test_def Backend_build_test_def Golden_build_test_def split: option.splits)

lemma patch_bitcode_returns:
  "dep \<noteq> [] \<Longrightarrow> \<exists>w2. patch_bitcode x self dep w = Returned () w2 \<and>
     files w2 = snd (run x \<lparr>inv_cmd = Argv [''angelix-patch-bitcode'', dep], inv_cwd = cwd w, inv_env = environ w, inv_stderr = stderr self\<rparr> w)"
  using check_output_cases[of x "Argv [''angelix-patch-bitcode'', dep]" "cwd w" "environ w" "stderr self" w]
  apply (elim disjE exE conjE)
   apply (simp add: patch_bitcode_def except_CalledProcessError_def)
  subgoal for w' rc
    using with_relpath_str[of dep w']
    by (auto simp add: patch_bitcode_def except_CalledProcessError_def logger_def)
  done

text \<open>
  What holds of every variant once the sub-build of the test case, if it declares one,
  has returned: a return of \<^verbatim>\<open>build_test\<close> means the terminal artifact exists, and
  an absent artifact means the compilation failure was raised.
\<close>

lemma build_test_artifact:
  assumes "tests_spec self t = Some ts" and "executable ts \<noteq> []"
  shows "(\<forall>w'. build_test v x self t w = Returned () w' \<longrightarrow> exists w' (terminal_artifact v self ts)) \<and>
         (\<forall>w1. sub_build v x self ts w = Returned () w1 \<longrightarrow>
            \<not> exists (world_of (build_test v x self t w)) (terminal_artifact v self ts) \<longrightarrow>
            (\<exists>w'. build_test v x self t w = Raised CompilationError w'))"
proof -
  let ?e = "join (dir self) (executable ts)"
  have ne: "?e \<noteq> []" using assms(2) by (rule join_nonempty)
  note bt = build_test_sub_build[OF assms(1), of v x w]
  show ?thesis
  proof (cases "sub_build v x self ts w")
    case (Raised e w1)
    then show ?thesis by (simp add: bt bind_def)
  next
    case (Returned u w1)
    show ?thesis
    proof (cases "v = Backend")
      case False
      then have bt': "build_test v x self t w = (if \<not> exists w1 ?e then fail_dependency t ?e w1 else Returned () w1)"
        unfolding bt using Returned by (cases v) (simp_all add: bind_def)
      have ta: "terminal_artifact v self ts = ?e" using False by (cases v) simp_all
      from fail_dependency_raises[OF ne, of t w1] obtain w' where
        "fail_dependency t ?e w1 = Raised CompilationError w'" "files w' = files w1" by blast
      then show ?thesis using Returned by (auto simp: bt' ta exists_def)
    next
      case True
      have ta: "terminal_artifact v self ts = ?e @ ''.patched.bc''" using True by simp
      have btB: "build_test v x self t w =
          (if \<not> exists w1 (?e @ ''.bc'') then fail_dependency t (?e @ ''.bc'') w1
           else bind (patch_bitcode x self (?e @ ''.bc'') w1)
                  (\<lambda>_ w2. if \<not> exists w2 (?e @ ''.patched.bc'')
                     then fail_dependency t (?e @ ''.patched.bc'') w2 else Returned () w2))"
        unfolding bt using Returned True by (simp add: bind_def Let_def)
      show ?thesis
      proof (cases "exists w1 (?e @ ''.bc'')")
        case False
        from fail_dependency_raises[of "?e @ ''.bc''" t w1] obtain w' where
          "fail_dependency t (?e @ ''.bc'') w1 = Raised CompilationError w'" by auto
        then show ?thesis using False by (simp add: btB)
      next
        case ex: True
        from patch_bitcode_returns[of "?e @ ''.bc''" x self w1] obtain w2 where
          p: "patch_bitcode x self (?e @ ''.bc'') w1 = Returned () w2" by auto
        from fail_dependency_raises[of "?e @ ''.patched.bc''" t w2] obtain w' where
          "fail_dependency t (?e @ ''.patched.bc'') w2 = Raised CompilationError w'" "files w' = files w2" by auto
        then show ?thesis using ex p by (auto simp add: btB bind_def ta exists_def)
      qed
    qed
  qed
qed

lemma build_test_artifact_example:
  "tests_spec demo_project ''t1'' = Some \<lparr>build = None, executable = ''bin/t1''\<rparr> \<and>
   build_test Validation (demo_ext (exit_with 0)) demo_project ''t1'' demo_world = Returned () demo_world \<and>
   exists demo_world ''/proj/bin/t1'' \<and>
   (\<exists>w'. build_test Validation (demo_ext (exit_with 0)) demo_project ''t1''
            (demo_world\<lparr>files := Map.empty\<rparr>) = Raised CompilationError w')"
proof -
  have a: "tests_spec demo_project ''t1'' = Some \<lparr>build = None, executable = ''bin/t1''\<rparr>"
    by (simp add: demo_project_def)
  have b: "executable \<lparr>build = None, executable = ''bin/t1''\<rparr> \<noteq> []" by simp
  have c: "sub_build Validation (demo_ext (exit_with 0)) demo_project \<lparr>build = None, executable = ''bin/t1''\<rparr> w = Returned () w" for w
    by (simp add: sub_build_def)
  have j: "join ''/proj'' ''bin/t1'' = ''/proj/bin/t1''"
    by (simp add: join_def startswith_def endswith_def)
  have d: "build_test Validation (demo_ext (exit_with 0)) demo_project ''t1'' demo_world = Returned () demo_world"
    by (simp add: Validation_build_test_def a bind_def j exists_def demo_world_def) (simp add: demo_project_def j)
  have e: "\<not> exists (world_of (build_test Validation (demo_ext (exit_with 0)) demo_project ''t1'' (demo_world\<lparr>files := Map.empty\<rparr>))) p" for p
    by (simp add: Validation_build_test_def a bind_def exists_def fail_dependency_def with_relpath_def logger_def split: sum.splits)
  note t = build_test_artifact[OF a b, of Validation "demo_ext (exit_with 0)"]
  from t[of demo_world] d have 1: "exists demo_world (terminal_artifact Validation demo_project \<lparr>build = None, executable = ''bin/t1''\<rparr>)"
    by blast
  from t[of "demo_world\<lparr>files := Map.empty\<rparr>"] c e
  have 2: "\<exists>w'. build_test Validation (demo_ext (exit_with 0)) demo_project ''t1''
            (demo_world\<lparr>files := Map.empty\<rparr>) = Raised CompilationError w'"
    by blast
  have 3: "terminal_artifact Validation demo_project \<lparr>build = None, executable = ''bin/t1''\<rparr> = ''/proj/bin/t1''"
    by (simp add: demo_project_def j)
  show ?thesis using a d 1 2 unfolding 3 by blast
qed

text \<open>
  C10. For every variant, \<^verbatim>\<open>build_test\<close> on a test case that is no key of the
  test specification raises \<^verbatim>\<open>KeyError\<close> and leaves the world as it was: no child
  process was started, no file looked up, nothing logged.
\<close>

theorem build_test_unknown_test_case:
  "tests_spec self t = None \<Longrightarrow> build_test v x self t w = Raised (KeyError t) w"
  by (cases v) (simp_all add: Validation_build_test_def Frontend_build_test_def Backend_build_test_def Golden_build_test_def)

theorem build_test_unknown_test_case_witness:
  "tests_spec demo_project ''t9'' = None \<and>
   build_test Backend (demo_ext (exit_with 0)) demo_project ''t9'' demo_world = Raised (KeyError ''t9'') demo_world"
  using build_test_unknown_test_case[of demo_project "''t9''" Backend "demo_ext (exit_with 0)" demo_world]
  by (simp add: demo_project_def)




subsection \<open>Backup and restoration\<close>

lemma backup_neq: "p @ ''.backup'' \<noteq> p"
  by (metis append_self_conv list.distinct(1))

lemma mutations_frame:
  "q \<noteq> join (dir self) (buggy self) \<Longrightarrow> files (foldl (mutate self) w ms) q = files w q"
  by (induction ms arbitrary: w) (simp_all add: mutate_def)

lemma restore_fixed:
  assumes "files w (buggy_backup self) = Some c" "files w (join (dir self) (buggy self)) = Some c"
    "buggy_backup self \<noteq> join (dir self) (buggy self)"
  shows "restore_buggy self w = Returned () w"
proof -
  have "(files w)(join (dir self) (buggy self) \<mapsto> c) = files w" using assms(2) by (auto simp: fun_upd_idem)
  then show ?thesis using assms by (simp add: restore_buggy_def copyfile_def)
qed

lemma restore_times_fixed:
  "restore_buggy self w = Returned () w \<Longrightarrow> restore_times n self w = Returned () w"
  by (induction n) (simp_all add: bind_def)

text \<open>
  C2. For a project that was constructed, after any finite sequence of overwrites and
  removals of the buggy file, \<^verbatim>\<open>restore_buggy\<close> returns and the buggy file has the
  content it had at construction; calling it again any number of times returns and
  changes nothing.
\<close>

theorem restore_buggy_after_mutations:
  assumes "Project_init cfg d b bc cc ts w = Returned self w0"
  shows "\<exists>c w'. files w (join d b) = Some c \<and>
           restore_buggy self (foldl (mutate self) w0 ms) = Returned () w' \<and>
           files w' (join d b) = Some c \<and>
           restore_times n self w' = Returned () w'"
proof -
  from assms obtain v where v: "cfg ''verbose'' = Some v"
    by (auto simp: Project_init_def split: option.splits)
  let ?p = "join d b"
  from assms v obtain c where c: "files w ?p = Some c"
    and w0: "w0 = w\<lparr>files := (files w)(?p @ ''.backup'' \<mapsto> c)\<rparr>"
    and self: "dir self = d" "buggy self = b" "buggy_backup self = ?p @ ''.backup''"
    by (auto simp: Project_init_def Let_def bind_def copyfile_def exists_def backup_neq split: option.splits if_splits)
  let ?wm = "foldl (mutate self) w0 ms"
  have bk: "files ?wm (?p @ ''.backup'') = Some c"
    using mutations_frame[of "?p @ ''.backup''" self w0 ms] by (simp add: self w0 backup_neq)
  let ?w' = "?wm\<lparr>files := (files ?wm)(?p \<mapsto> c)\<rparr>"
  have r: "restore_buggy self ?wm = Returned () ?w'"
    using bk by (simp add: restore_buggy_def copyfile_def self backup_neq)
  have "restore_buggy self ?w' = Returned () ?w'"
    by (rule restore_fixed[where c = c]) (simp_all add: self bk backup_neq)
  then have "restore_times n self ?w' = Returned () ?w'" by (rule restore_times_fixed)
  with c r show ?thesis by simp
qed

theorem restore_buggy_after_mutations_witness:
  "\<exists>w0 w'. Project_init [''verbose'' \<mapsto> False] ''/proj'' ''src/bug.c'' ''make'' (Some ''./configure'')
               [''t1'' \<mapsto> \<lparr>build = None, executable = ''bin/t1''\<rparr>] demo_world = Returned demo_project w0 \<and>
     restore_buggy demo_project (foldl (mutate demo_project) w0 [Overwrite ''int main() { return 0; }'', Remove])
       = Returned () w' \<and>
     files w' ''/proj/src/bug.c'' = Some ''int main() { return 1; }'' \<and>
     restore_times 3 demo_project w' = Returned () w'"
proof -
  let ?w0 = "demo_world\<lparr>files := (files demo_world)(''/proj/src/bug.c.backup'' \<mapsto> ''int main() { return 1; }'')\<rparr>"
  have j: "join ''/proj'' ''src/bug.c'' = ''/proj/src/bug.c''"
    by (simp add: join_def startswith_def endswith_def)
  have f: "files demo_world ''/proj/src/bug.c'' = Some ''int main() { return 1; }''"
    by (simp add: demo_world_def)
  have i: "Project_init [''verbose'' \<mapsto> False] ''/proj'' ''src/bug.c'' ''make'' (Some ''./configure'')
               [''t1'' \<mapsto> \<lparr>build = None, executable = ''bin/t1''\<rparr>] demo_world = Returned demo_project ?w0"
    by (simp add: Project_init_def Let_def j bind_def copyfile_def f demo_project_def)
  from restore_buggy_after_mutations[OF i, of "[Overwrite ''int main() { return 0; }'', Remove]" 3]
  show ?thesis using i by (auto simp: j f)
qed

subsection \<open>The executor\<close>

lemma log_failed_frame:
  "environ (world_of (log_failed ls w)) = environ w \<and> procs (world_of (log_failed ls w)) = procs w \<and>
   files (world_of (log_failed ls w)) = files w"
  by (induction ls arbitrary: w) (auto simp: with_relpath_def logger_def split: sum.splits)

lemma build_in_env_frame:
  "environ (world_of (build_in_env x d cmd se e w)) = environ w \<and>
   procs (world_of (build_in_env x d cmd se e w)) = procs w @
     [\<lparr>inv_cmd = Shell cmd, inv_cwd = d,
       inv_env = e(''ANGELIX_COMPILER_MESSAGES'' \<mapsto> join (mkdtemp_name x (tmp_made w)) ''messages''),
       inv_stderr = se\<rparr>]"
  by (auto simp: build_in_env_def Let_def bind_def except_CalledProcessError_def check_output_def
      with_relpath_def logger_def log_failed_frame split: sum.splits option.splits)

text \<open>
  C7. \<^verbatim>\<open>build_with_cc\<close> starts one child process, whose environment is the
  ambient one with \<^verbatim>\<open>CC\<close> set to the given compiler and the messages-file
  variable added; the ambient environment is the same afterwards, whether the call
  returns or raises, and a build started next with the default environment sees the
  ambient value of \<^verbatim>\<open>CC\<close>.
\<close>

theorem build_with_cc_environment:
  "environ (world_of (build_with_cc x d cmd se cc w)) = environ w \<and>
   procs (world_of (build_with_cc x d cmd se cc w)) = procs w @
     [\<lparr>inv_cmd = Shell cmd, inv_cwd = d,
       inv_env = (environ w)(''CC'' \<mapsto> cc,
                   ''ANGELIX_COMPILER_MESSAGES'' \<mapsto> join (mkdtemp_name x (tmp_made w)) ''messages''),
       inv_stderr = se\<rparr>] \<and>
   inv_env (last (procs (world_of (build_in_env x d2 cmd2 se2
       (environ (world_of (build_with_cc x d cmd se cc w)))
       (world_of (build_with_cc x d cmd se cc w)))))) ''CC'' = environ w ''CC''"
  by (simp add: build_with_cc_def Let_def build_in_env_frame)

theorem build_with_cc_environment_witness:
  "environ (world_of (build_with_cc (demo_ext (exit_with 0)) ''/proj'' ''make'' DEVNULL ''angelix-compiler --test'' demo_world)) ''CC'' = Some ''gcc'' \<and>
   map (\<lambda>i. inv_env i ''CC'') (procs (world_of (build_with_cc (demo_ext (exit_with 0)) ''/proj'' ''make'' DEVNULL ''angelix-compiler --test'' demo_world)))
     = [Some ''angelix-compiler --test'']"
  using build_with_cc_environment[of "demo_ext (exit_with 0)" "''/proj''" "''make''" DEVNULL "''angelix-compiler --test''" demo_world]
  by (simp add: demo_world_def)

lemma log_failed_ok:
  "\<forall>l\<in>set ls. strip l \<noteq> [] \<Longrightarrow> \<exists>w'. log_failed ls w = Returned () w'"
proof (induction ls arbitrary: w)
  case Nil
  then show ?case by simp
next
  case (Cons l ls)
  then have "strip l \<noteq> []" by simp
  from with_relpath_str[OF this, of w] obtain r where
    "relpath1 (cwd w) (PyStr (strip l)) = Inr r" by blast
  then have "log_failed (l # ls) w = log_failed ls (logger WARNING (''failed to build '' @ r) w)"
    by (simp add: with_relpath_def)
  with Cons show ?case by simp
qed

lemma log_failed_blank:
  "\<exists>l\<in>set ls. strip l = [] \<Longrightarrow> \<exists>w'. log_failed ls w = Raised ValueError w'"
proof (induction ls arbitrary: w)
  case Nil
  then show ?case by simp
next
  case (Cons l ls)
  show ?case
  proof (cases "strip l = []")
    case True
    then show ?thesis by (simp add: with_relpath_def relpath1_def relpath_def)
  next
    case False
    with Cons.prems have "\<exists>l\<in>set ls. strip l = []" by auto
    from with_relpath_str[OF False, of w] obtain r where
      "relpath1 (cwd w) (PyStr (strip l)) = Inr r" by blast
    then have "log_failed (l # ls) w = log_failed ls (logger WARNING (''failed to build '' @ r) w)"
      by (simp add: with_relpath_def)
    with Cons.IH[OF \<open>\<exists>l\<in>set ls. strip l = []\<close>] show ?thesis by simp
  qed
qed

lemma build_in_env_messages:
  assumes "fst (run x \<lparr>inv_cmd = Shell cmd, inv_cwd = d,
                       inv_env = e(''ANGELIX_COMPILER_MESSAGES'' \<mapsto> join (mkdtemp_name x (tmp_made w)) ''messages''),
                       inv_stderr = se\<rparr> (w\<lparr>tmp_made := Suc (tmp_made w)\<rparr>)) \<noteq> 0"
    and "d \<noteq> []"
    and "snd (run x \<lparr>inv_cmd = Shell cmd, inv_cwd = d,
                       inv_env = e(''ANGELIX_COMPILER_MESSAGES'' \<mapsto> join (mkdtemp_name x (tmp_made w)) ''messages''),
                       inv_stderr = se\<rparr> (w\<lparr>tmp_made := Suc (tmp_made w)\<rparr>))
           (join (mkdtemp_name x (tmp_made w)) ''messages'') = Some bytes"
  shows "\<exists>w2. files w2 = snd (run x \<lparr>inv_cmd = Shell cmd, inv_cwd = d,
                       inv_env = e(''ANGELIX_COMPILER_MESSAGES'' \<mapsto> join (mkdtemp_name x (tmp_made w)) ''messages''),
                       inv_stderr = se\<rparr> (w\<lparr>tmp_made := Suc (tmp_made w)\<rparr>)) \<and>
           build_in_env x d cmd se e w =
             (case decode x bytes of
                Some txt \<Rightarrow> log_failed (readlines txt) w2
              | None \<Rightarrow> Raised UnicodeDecodeError w2)"
proof -
  let ?m = "join (mkdtemp_name x (tmp_made w)) ''messages''"
  let ?inv = "\<lparr>inv_cmd = Shell cmd, inv_cwd = d, inv_env = e(''ANGELIX_COMPILER_MESSAGES'' \<mapsto> ?m), inv_stderr = se\<rparr>"
  let ?w0 = "w\<lparr>tmp_made := Suc (tmp_made w)\<rparr>"
  let ?w1 = "?w0\<lparr>files := snd (run x ?inv ?w0), procs := procs ?w0 @ [?inv]\<rparr>"
  from relpath_nonempty[OF assms(2)] obtain r where r: "relpath (cwd w) d ''.'' = Inr r" by blast
  let ?w2 = "logger WARNING (''compilation of '' @ r @ '' returned non-zero code'') ?w1"
  have "build_in_env x d cmd se e w =
          (case decode x bytes of
             Some txt \<Rightarrow> log_failed (readlines txt) ?w2
           | None \<Rightarrow> Raised UnicodeDecodeError ?w2)"
    using assms(1,3) r
    by (simp add: build_in_env_def Let_def bind_def except_CalledProcessError_def check_output_def
        with_relpath_def relpath1_def logger_def split: option.splits)
  moreover have "files ?w2 = snd (run x ?inv ?w0)" by (simp add: logger_def)
  ultimately show ?thesis by blast
qed

lemma build_in_env_blank_line:
  assumes "fst (run x \<lparr>inv_cmd = Shell cmd, inv_cwd = d,
                       inv_env = e(''ANGELIX_COMPILER_MESSAGES'' \<mapsto> join (mkdtemp_name x (tmp_made w)) ''messages''),
                       inv_stderr = se\<rparr> (w\<lparr>tmp_made := Suc (tmp_made w)\<rparr>)) \<noteq> 0"
    and "d \<noteq> []"
    and "snd (run x \<lparr>inv_cmd = Shell cmd, inv_cwd = d,
                       inv_env = e(''ANGELIX_COMPILER_MESSAGES'' \<mapsto> join (mkdtemp_name x (tmp_made w)) ''messages''),
                       inv_stderr = se\<rparr> (w\<lparr>tmp_made := Suc (tmp_made w)\<rparr>))
           (join (mkdtemp_name x (tmp_made w)) ''messages'') = Some bytes"
    and "decode x bytes = Some txt"
    and "\<exists>l\<in>set (readlines txt). strip l = []"
  shows "\<exists>w'. build_in_env x d cmd se e w = Raised ValueError w' \<and>
           files w' = snd (run x \<lparr>inv_cmd = Shell cmd, inv_cwd = d,
                       inv_env = e(''ANGELIX_COMPILER_MESSAGES'' \<mapsto> join (mkdtemp_name x (tmp_made w)) ''messages''),
                       inv_stderr = se\<rparr> (w\<lparr>tmp_made := Suc (tmp_made w)\<rparr>))"
proof -
  from build_in_env_messages[OF assms(1-3)] assms(4) obtain w2 where
    f: "files w2 = snd (run x \<lparr>inv_cmd = Shell cmd, inv_cwd = d,
                       inv_env = e(''ANGELIX_COMPILER_MESSAGES'' \<mapsto> join (mkdtemp_name x (tmp_made w)) ''messages''),
                       inv_stderr = se\<rparr> (w\<lparr>tmp_made := Suc (tmp_made w)\<rparr>))"
    and b: "build_in_env x d cmd se e w = log_failed (readlines txt) w2" by auto
  from log_failed_blank[OF assms(5), of w2] obtain w' where
    r: "log_failed (readlines txt) w2 = Raised ValueError w'" by blast
  from log_failed_frame[of "readlines txt" w2] r have "files w' = files w2" by simp
  with b r f show ?thesis by simp
qed

text \<open>
  C4. When the build command exits with a non-zero code in a non-empty directory and
  leaves a messages file, \<^verbatim>\<open>build_in_env\<close> returns if the file can be decoded and no
  line of it is blank; it raises \<^verbatim>\<open>ValueError\<close> if a line is blank, and
  \<^verbatim>\<open>UnicodeDecodeError\<close> if the file cannot be decoded: the exit code is caught, the
  blank line is not.
\<close>

theorem build_in_env_nonzero_exit:
  assumes "fst (run x \<lparr>inv_cmd = Shell cmd, inv_cwd = d,
                       inv_env = e(''ANGELIX_COMPILER_MESSAGES'' \<mapsto> join (mkdtemp_name x (tmp_made w)) ''messages''),
                       inv_stderr = se\<rparr> (w\<lparr>tmp_made := Suc (tmp_made w)\<rparr>)) \<noteq> 0"
    and "d \<noteq> []"
    and "snd (run x \<lparr>inv_cmd = Shell cmd, inv_cwd = d,
                       inv_env = e(''ANGELIX_COMPILER_MESSAGES'' \<mapsto> join (mkdtemp_name x (tmp_made w)) ''messages''),
                       inv_stderr = se\<rparr> (w\<lparr>tmp_made := Suc (tmp_made w)\<rparr>))
           (join (mkdtemp_name x (tmp_made w)) ''messages'') = Some bytes"
  shows "case decode x bytes of
           None \<Rightarrow> \<exists>w'. build_in_env x d cmd se e w = Raised UnicodeDecodeError w'
         | Some txt \<Rightarrow>
             if \<exists>l\<in>set (readlines txt). strip l = []
             then \<exists>w'. build_in_env x d cmd se e w = Raised ValueError w'
             else \<exists>w'. build_in_env x d cmd se e w = Returned () w'"
proof -
  from build_in_env_messages[OF assms] obtain w2 where
    b: "build_in_env x d cmd se e w =
          (case decode x bytes of
             Some txt \<Rightarrow> log_failed (readlines txt) w2
           | None \<Rightarrow> Raised UnicodeDecodeError w2)" by blast
  show ?thesis
  proof (cases "decode x bytes")
    case None
    with b show ?thesis by simp
  next
    case (Some t)
    with b have "build_in_env x d cmd se e w = log_failed (readlines t) w2" by simp
    then show ?thesis
      using log_failed_blank[of "readlines t" w2] log_failed_ok[of "readlines t" w2] Some
      by auto
  qed
qed

theorem build_in_env_nonzero_exit_witness:
  "\<exists>w'. build_in_env (demo_ext blank_message) ''/proj'' ''echo > $ANGELIX_COMPILER_MESSAGES; false'' DEVNULL (environ demo_world) demo_world = Raised ValueError w'"
  using build_in_env_nonzero_exit[of "demo_ext blank_message" "''echo > $ANGELIX_COMPILER_MESSAGES; false''" "''/proj''" "environ demo_world" demo_world DEVNULL "[CHR 0x0A]"]
  by (simp add: demo_ext_def blank_message_def readlines_def strip_def isspace1_def)

text \<open>
  C5. When the configure command exits with a non-zero code, \<^verbatim>\<open>configure\<close>
  raises \<^verbatim>\<open>TypeError\<close> out of its handler and logs no warning: the handler formats
  \<^verbatim>\<open>relpath(dir)\<close> with the built-in \<^verbatim>\<open>dir\<close>.
\<close>

theorem configure_nonzero_exit:
  assumes "configure_cmd self = Some c"
    and "fst (run x \<lparr>inv_cmd = Shell c, inv_cwd = dir self, inv_env = environ w, inv_stderr = stderr self\<rparr>
               (logger INFO (''configuring '' @ basename (dir self) @ '' source'') w)) \<noteq> 0"
  shows "\<exists>w'. configure x self w = Raised TypeError w' \<and>
           logged w' = logged w @ [(INFO, ''configuring '' @ basename (dir self) @ '' source'')]"
  using assms
  by (simp add: configure_def Let_def except_CalledProcessError_def check_output_def
      with_relpath_def relpath1_def logger_def)

theorem configure_nonzero_exit_witness:
  "\<exists>w'. configure (demo_ext (exit_with 1)) demo_project demo_world = Raised TypeError w' \<and>
     logged w' = [(INFO, ''configuring proj source'')]"
  using configure_nonzero_exit[of demo_project "''./configure''" "demo_ext (exit_with 1)" demo_world]
  by (simp add: demo_project_def demo_ext_def exit_with_def demo_world_def basename_def)

subsection \<open>A sub-build that raises\<close>

lemma demo_blank_build:
  "\<exists>w'. build_in_env (demo_ext blank_message) ''/proj/tests'' ''make t2'' DEVNULL e demo_world
           = Raised ValueError w' \<and>
         files w' = (files demo_world)(''/tmp/tmp/messages'' \<mapsto> [CHR 0x0A])"
proof -
  have j: "join ''/tmp/tmp'' ''messages'' = ''/tmp/tmp/messages''"
    by (simp add: join_def startswith_def endswith_def)
  have b: "\<exists>l\<in>set (readlines [CHR 0x0A]). strip l = []"
    by (simp add: readlines_def strip_def isspace1_def)
  have tm: "tmp_made demo_world = 0" by (simp add: demo_world_def)
  from build_in_env_blank_line[of "demo_ext blank_message" "''make t2''" "''/proj/tests''" e demo_world
      DEVNULL "[CHR 0x0A]" "[CHR 0x0A]", OF _ _ _ _ b]
  show ?thesis by (simp add: demo_ext_def blank_message_def j tm)
qed

text \<open>
  C1. The claim fails on the code where the sub-build of a test case raises: the exception
  of \<^verbatim>\<open>build_in_env\<close> leaves \<^verbatim>\<open>build_test\<close> as it is, for every variant, before any
  artifact is looked for. With a messages file that holds a blank line that exception is
  \<^verbatim>\<open>ValueError\<close>, so \<^verbatim>\<open>build_test\<close> ends with the artifact absent and without the
  compilation failure.
\<close>

theorem build_test_sub_build_raises:
  assumes "tests_spec self t = Some ts" and "sub_build v x self ts w = Raised e w1"
  shows "build_test v x self t w = Raised e w1"
  using assms by (simp add: build_test_sub_build bind_def)

theorem build_test_sub_build_raises_witness:
  "list_all (\<lambda>v.
      (\<exists>w'. build_test v (demo_ext blank_message) demo_project_sub ''t2'' demo_world = Raised ValueError w') \<and>
      \<not> exists (world_of (build_test v (demo_ext blank_message) demo_project_sub ''t2'' demo_world))
           (terminal_artifact v demo_project_sub demo_test_sub))
     [Validation, Frontend, Backend, Golden]"
proof -
  have t: "tests_spec demo_project_sub ''t2'' = Some demo_test_sub"
    by (simp add: demo_project_sub_def)
  have j: "join (dir demo_project_sub) ''tests'' = ''/proj/tests''"
    "join (dir demo_project_sub) (executable demo_test_sub) = ''/proj/tests/t2''"
    by (simp_all add: demo_project_sub_def demo_project_def demo_test_sub_def join_def startswith_def endswith_def)
  have s: "stderr demo_project_sub = DEVNULL" by (simp add: demo_project_sub_def demo_project_def)
  have sub: "\<exists>w'. sub_build v (demo_ext blank_message) demo_project_sub demo_test_sub demo_world
                 = Raised ValueError w' \<and>
               files w' = (files demo_world)(''/tmp/tmp/messages'' \<mapsto> [CHR 0x0A])" for v
    using demo_blank_build[of "environ demo_world"]
          demo_blank_build[of "(environ demo_world)(''CC'' \<mapsto> ''angelix-compiler --test'')"]
          demo_blank_build[of "(environ demo_world)(''CC'' \<mapsto> ''angelix-compiler --klee'')"]
    by (cases v) (simp_all add: sub_build_def demo_test_sub_def j s build_with_cc_def)
  have one: "(\<exists>w'. build_test v (demo_ext blank_message) demo_project_sub ''t2'' demo_world = Raised ValueError w') \<and>
      \<not> exists (world_of (build_test v (demo_ext blank_message) demo_project_sub ''t2'' demo_world))
           (terminal_artifact v demo_project_sub demo_test_sub)" for v
  proof -
    from sub[of v] obtain w' where
      r: "sub_build v (demo_ext blank_message) demo_project_sub demo_test_sub demo_world = Raised ValueError w'"
      and f: "files w' = (files demo_world)(''/tmp/tmp/messages'' \<mapsto> [CHR 0x0A])" by blast
    have b: "build_test v (demo_ext blank_message) demo_project_sub ''t2'' demo_world = Raised ValueError w'"
      by (rule build_test_sub_build_raises[OF t r])
    have "\<not> exists w' (terminal_artifact v demo_project_sub demo_test_sub)"
      by (cases v) (simp_all add: exists_def f j demo_world_def)
    with b show ?thesis by simp
  qed
  show ?thesis by (simp add: one)
qed

subsection \<open>The store: what the loops over records touch\<close>

lemma getitem_world: "world_of (getitem r k w) = w"
  by (simp add: getitem_def split: sum.splits)

lemma getitem_cases:
  "(\<exists>v. getitem r k w = Returned v w) \<or> (\<exists>e. getitem r k w = Raised e w)"
  by (simp add: getitem_def split: sum.splits)

lemma setitem_heap:
  "n \<le> r \<Longrightarrow> take n (heap (world_of (setitem r k v w))) = take n (heap w)"
  by (simp add: setitem_def)

lemma setitem_frame:
  "files (world_of (setitem r k v w)) = files w \<and> environ (world_of (setitem r k v w)) = environ w
   \<and> length (heap (world_of (setitem r k v w))) = length (heap w)
   \<and> cwd (world_of (setitem r k v w)) = cwd w"
  by (simp add: setitem_def)

lemma bind_getitem:
  "world_of (bind (getitem r k w) f) = (case getitem r k w of Returned v _ \<Rightarrow> world_of (f v w) | Raised _ _ \<Rightarrow> w)"
  using getitem_cases[of r k w] by (auto simp: bind_def)

lemma bind_setitem:
  "world_of (bind (setitem r k v w) f) =
     (case setitem r k v w of Returned _ w' \<Rightarrow> world_of (f () w') | Raised _ _ \<Rightarrow> w)"
  by (auto simp: bind_def setitem_def)

lemma same_below_refl: "same_below n w w" by (simp add: same_below_def)

lemma same_below_trans: "same_below n a b \<Longrightarrow> same_below n b c \<Longrightarrow> same_below n a c"
  by (simp add: same_below_def)

lemma same_below_setitem: "n \<le> r \<Longrightarrow> same_below n w (world_of (setitem r k v w))"
  by (simp add: same_below_def setitem_def)

lemma setitem_Returned: "setitem r k v w = Returned u w' \<Longrightarrow> n \<le> r \<Longrightarrow> same_below n w w'"
  using same_below_setitem[of n r w k v] by simp

lemma setitem_Raised: "setitem r k v w = Raised e w' \<Longrightarrow> w' = w"
  by (simp add: setitem_def split: if_splits)

lemma getitem_Returned: "getitem r k w = Returned v w' \<Longrightarrow> w' = w"
  by (simp add: getitem_def split: if_splits sum.splits)

lemma getitem_Raised: "getitem r k w = Raised e w' \<Longrightarrow> w' = w"
  by (simp add: getitem_def split: if_splits sum.splits)

lemma same_below_bind:
  assumes "same_below n w (world_of m)"
    and "\<And>v w1. m = Returned v w1 \<Longrightarrow> same_below n w1 (world_of (f v w1))"
  shows "same_below n w (world_of (bind m f))"
proof (cases m)
  case (Returned v w1)
  with assms(1) have "same_below n w w1" by simp
  moreover have "same_below n w1 (world_of (f v w1))" using Returned by (rule assms(2))
  ultimately show ?thesis using Returned by (simp add: bind_def same_below_trans[of n w w1])
next
  case (Raised e w1)
  with assms(1) show ?thesis by (simp add: bind_def)
qed

lemma import_item_below:
  assumes "n \<le> r"
  shows "same_below n w (world_of (import_item self r w))"
  unfolding import_item_def
  by (intro same_below_bind)
     (auto simp: getitem_world same_below_refl same_below_setitem assms split: option.splits)

lemma export_item_below:
  assumes "n \<le> r"
  shows "same_below n w (world_of (export_item self r w))"
  unfolding export_item_def
  apply (rule same_below_bind)
   apply (simp add: getitem_world same_below_refl)
  apply (simp split: sum.splits add: same_below_refl)
  apply (intro allI impI)
  apply (rule same_below_bind, simp add: same_below_setitem assms)
  apply (rule same_below_bind, simp add: getitem_world same_below_refl)
  apply (simp split: sum.splits add: same_below_refl same_below_setitem assms)
  done

lemma for_each_below:
  assumes "\<And>r w. r \<in> set rs \<Longrightarrow> same_below n w (world_of (body r w))"
  shows "same_below n w (world_of (for_each body rs w))"
  using assms
proof (induction rs arbitrary: w)
  case Nil
  then show ?case by (simp add: same_below_refl)
next
  case (Cons r rs)
  have 1: "same_below n w (world_of (body r w))" using Cons.prems by simp
  show ?case
  proof (cases "body r w")
    case (Returned u w1)
    have "same_below n w1 (world_of (for_each body rs w1))"
      by (rule Cons.IH) (simp add: Cons.prems)
    with 1 Returned show ?thesis by (simp add: same_below_trans[of n w w1])
  next
    case (Raised e w1)
    with 1 show ?thesis by simp
  qed
qed

lemma deepcopy_items_grows:
  "deepcopy_items memo rs w = out \<Longrightarrow>
   (\<exists>extra. heap (world_of out) = heap w @ extra) \<and> files (world_of out) = files w
     \<and> environ (world_of out) = environ w \<and> cwd (world_of out) = cwd w"
proof (induction rs arbitrary: memo w out)
  case Nil
  then show ?case by auto
next
  case (Cons r rs)
  show ?case
  proof (cases "map_of memo r")
    case (Some c)
    from Cons.IH[OF refl, of memo w] Some Cons.prems show ?thesis
      by (cases "deepcopy_items memo rs w") (auto simp: bind_def)
  next
    case None
    show ?thesis
    proof (cases "r < length (heap w)")
      case True
      let ?w1 = "w\<lparr>heap := heap w @ [heap w ! r]\<rparr>"
      from Cons.IH[OF refl, of "(r, length (heap w)) # memo" ?w1] None True Cons.prems show ?thesis
        by (cases "deepcopy_items ((r, length (heap w)) # memo) rs ?w1") (auto simp: bind_def Let_def)
    next
      case False
      with None Cons.prems show ?thesis by auto
    qed
  qed
qed

lemma deepcopy_items_fresh:
  "deepcopy_items memo rs w = Returned cs w' \<Longrightarrow> n \<le> length (heap w) \<Longrightarrow>
   \<forall>c\<in>ran (map_of memo). n \<le> c \<Longrightarrow> (\<forall>c\<in>set cs. n \<le> c) \<and> length cs = length rs"
proof (induction rs arbitrary: memo w cs w')
  case Nil
  then show ?case by auto
next
  case (Cons r rs)
  show ?case
  proof (cases "map_of memo r")
    case (Some c)
    then have c: "n \<le> c" using Cons.prems(3) by (auto simp: ran_def)
    from Some Cons.prems(1) obtain cs' where
      1: "deepcopy_items memo rs w = Returned cs' w'" and 2: "cs = c # cs'"
      by (cases "deepcopy_items memo rs w") (auto simp: bind_def)
    from Cons.IH[OF 1 Cons.prems(2,3)] c 2 show ?thesis by simp
  next
    case None
    show ?thesis
    proof (cases "r < length (heap w)")
      case True
      let ?w1 = "w\<lparr>heap := heap w @ [heap w ! r]\<rparr>"
      let ?memo = "(r, length (heap w)) # memo"
      from None True Cons.prems(1) obtain cs' where
        1: "deepcopy_items ?memo rs ?w1 = Returned cs' w'" and 2: "cs = length (heap w) # cs'"
        by (cases "deepcopy_items ?memo rs ?w1") (auto simp: bind_def Let_def)
      have 3: "\<forall>c\<in>ran (map_of ?memo). n \<le> c"
        using Cons.prems(2,3) by (auto simp: ran_def split: if_splits)
      have 4: "n \<le> length (heap ?w1)" using Cons.prems(2) by simp
      from Cons.IH[OF 1 4 3] 2 Cons.prems(2) show ?thesis by simp
    next
      case False
      with None Cons.prems show ?thesis by auto
    qed
  qed
qed

text \<open>
  C9. \<^verbatim>\<open>import_compilation_db\<close> leaves every object that was in the store before the
  call as it was, the records of its input among them, whether it returns or raises;
  when it returns, the records it rewrote are copies made during the call, and the file
  \<^verbatim>\<open>compile_commands.json\<close> of the project holds the serialised copies.
\<close>

theorem import_leaves_input:
  "take (length (heap w)) (heap (world_of (import_compilation_db x self db w))) = heap w \<and>
   (\<forall>w'. import_compilation_db x self db w = Returned () w' \<longrightarrow>
      (\<exists>copy. length copy = length db \<and> (\<forall>c\<in>set copy. length (heap w) \<le> c) \<and>
         files w' = (files w)(join (dir self) ''compile_commands.json'' \<mapsto>
                        json_dumps x (map (\<lambda>r. heap w' ! r) copy))))"
proof -
  let ?n = "length (heap w)"
  show ?thesis
  proof (cases "deepcopy db w")
    case (Raised e w1)
    from deepcopy_items_grows[OF Raised[unfolded deepcopy_def]] Raised show ?thesis
      by (auto simp: import_compilation_db_def bind_def)
  next
    case (Returned copy w1)
    from deepcopy_items_grows[OF Returned[unfolded deepcopy_def]] obtain extra where
      h1: "heap w1 = heap w @ extra" and f1: "files w1 = files w" by auto
    from deepcopy_items_fresh[OF Returned[unfolded deepcopy_def], of ?n]
    have fresh: "\<forall>c\<in>set copy. ?n \<le> c" and len: "length copy = length db" by auto
    have sb: "same_below ?n w1 (world_of (for_each (import_item self) copy w1))"
      by (rule for_each_below) (simp add: import_item_below fresh)
    show ?thesis
    proof (cases "for_each (import_item self) copy w1")
      case r2: (Raised e w2)
      with sb h1 Returned show ?thesis
        by (simp add: import_compilation_db_def bind_def same_below_def)
    next
      case r2: (Returned u w2)
      with sb h1 f1 Returned fresh len show ?thesis
        by (auto simp add: import_compilation_db_def bind_def same_below_def Let_def)
    qed
  qed
qed

subsection \<open>Splitting, normalising and relativising paths\<close>


































subsection \<open>Paths that come back as the same string\<close>





subsection \<open>Export and import of the compilation database\<close>










lemma demo_join:
  "join ''/proj'' ''compile_commands.json'' = ''/proj/compile_commands.json''"
  "join ''/proj'' ''.'' = ''/proj/.''"
  "join ''/proj'' ''src/bug.c'' = ''/proj/src/bug.c''"
  "join ''/tmp/tmp'' ''messages'' = ''/tmp/tmp/messages''"
  by (simp_all add: join_def startswith_def endswith_def)


lemma demo_normpaths:
  "normpath ''/proj/.'' = ''/proj''" "normpath ''/proj'' = ''/proj''"
  "normpath ''/proj/src/bug.c'' = ''/proj/src/bug.c''"
  by (simp_all add: normpath_def startswith_def initial_slashes_def Let_def)






text \<open>
  C9, an example. the record in the store is the same after the import, and the copy
  is what was rewritten and written to the file.
\<close>

theorem import_leaves_input_witness:
  "take 1 (heap (world_of (import_compilation_db (demo_ext (exit_with 0)) demo_project [0] demo_heap_world)))
     = [demo_record] \<and>
   heap (world_of (import_compilation_db (demo_ext (exit_with 0)) demo_project [0] demo_heap_world)) ! 1
     = [(''directory'', ''/proj/.''), (''file'', ''/proj/src/bug.c''),
        (''command'', ''cc -c src/bug.c -I/llvm/include'')] \<and>
   files (world_of (import_compilation_db (demo_ext (exit_with 0)) demo_project [0] demo_heap_world))
     ''/proj/compile_commands.json'' =
     Some ''directory=/proj/.;file=/proj/src/bug.c;command=cc -c src/bug.c -I/llvm/include;|''"
proof -
  have p: "dir demo_project = ''/proj''" by (simp add: demo_project_def)
  have e: "environ demo_heap_world ''LLVM3_INCLUDE_PATH'' = Some ''/llvm/include''"
    "heap demo_heap_world = [demo_record]"
    by (simp_all add: demo_world_def demo_heap_world_def)
  have run: "heap (world_of (import_compilation_db (demo_ext (exit_with 0)) demo_project [0] demo_heap_world)) ! 1
     = [(''directory'', ''/proj/.''), (''file'', ''/proj/src/bug.c''),
        (''command'', ''cc -c src/bug.c -I/llvm/include'')] \<and>
   files (world_of (import_compilation_db (demo_ext (exit_with 0)) demo_project [0] demo_heap_world))
     ''/proj/compile_commands.json'' =
     Some ''directory=/proj/.;file=/proj/src/bug.c;command=cc -c src/bug.c -I/llvm/include;|''"
    by (simp add: import_compilation_db_def deepcopy_def bind_def Let_def import_item_def
        getitem_def setitem_def dict_get_def demo_record_def p demo_join e)
       (simp add: demo_ext_def)
  from import_leaves_input[of demo_heap_world "demo_ext (exit_with 0)" demo_project "[0]"]
  have "take 1 (heap (world_of (import_compilation_db (demo_ext (exit_with 0)) demo_project [0] demo_heap_world)))
     = [demo_record]" by (simp add: e)
  with run show ?thesis by blast
qed

subsection \<open>The matcher on equal sequences and on a single changed element\<close>







lemma indices_of_nonempty: "x \<in> set b \<Longrightarrow> indices_of b x \<noteq> []"
  by (auto simp: indices_of_def filter_empty_conv in_set_conv_nth)


lemma run_before_zero [simp]: "run_before a i 0 = 0"
  by (cases i) simp_all





























subsection \<open>\<^verbatim>\<open>diff_buggy\<close>\<close>










end
